theory Spec2Isabelle
  imports Complex_Main
begin

section \<open>Python values used by rat.py\<close>

text \<open>
  A \<open>bytes\<close> object is a list of 8-bit characters. A \<open>str\<close> object is a list of Unicode
  code points (natural numbers up to 0x10FFFF); \<open>ascii\<close> turns a literal into one.
\<close>

type_synonym bytes = "char list"
type_synonym pystr = "nat list"

definition ascii :: "string \<Rightarrow> pystr" where
  "ascii s = map of_char s"

text \<open>The exceptions the module can raise, with the message where the source gives one.\<close>

datatype exn =
    IOError string
  | AssertionError string
  | NameError string
  | UnboundLocalError string
  | TypeError
  | ValueError
  | IndexError
  | UnicodeDecodeError
  | UnicodeEncodeError
  | Timeout
  | OSError

definition ERR_PREFIX :: string where
  "ERR_PREFIX = ''<error> ''"

definition ERR_STATE :: string where
  "ERR_STATE = ERR_PREFIX @ ''Cannot perform operation '' @ ''in current connection state!''"

definition ERR_HEADER_INVALID :: string where
  "ERR_HEADER_INVALID = ERR_PREFIX @ ''RAT header size mismatch; '' @ ''header may be malformed!''"

definition ERR_MISALIGNED_WORDS :: string where
  "ERR_MISALIGNED_WORDS = ERR_PREFIX @ ''Overhead data is not aligned to 16 bits!''"

definition ERR_NUM_OUT_OF_RANGE :: string where
  "ERR_NUM_OUT_OF_RANGE = ERR_PREFIX @ ''Number out of range!''"

definition RAT_MAX_SEQ_NUM :: int where "RAT_MAX_SEQ_NUM = 65535"
definition RAT_MAX_STREAM_ID :: int where "RAT_MAX_STREAM_ID = 65535"
definition RAT_RETRY_TIMES :: int where "RAT_RETRY_TIMES = 5"
definition RAT_HEADER_SIZE :: nat where "RAT_HEADER_SIZE = 64"
definition UDP_HEADER_SIZE :: nat where "UDP_HEADER_SIZE = 64"
definition RAT_PAYLOAD_SIZE :: nat where "RAT_PAYLOAD_SIZE = 512"
definition RAT_DEFAULT_WINDOW :: int where "RAT_DEFAULT_WINDOW = 5"
definition RAT_REPLY_TIMEOUT :: rat where "RAT_REPLY_TIMEOUT = 4"
definition RAT_BYE_TIMEOUT :: rat where "RAT_BYE_TIMEOUT = RAT_REPLY_TIMEOUT / 4"

datatype State =
    SOCK_UNOPENED
  | SOCK_SERVOPEN
  | SOCK_HLOSENT
  | SOCK_HLORECV
  | SOCK_ESTABLISHED
  | SOCK_BYESENT
  | SOCK_BYERECV
  | SOCK_CLOSED

datatype Flag = ACK | NACK | SWIN | RST | ALI | HLO | BYE | EXP

definition RAT_FLAG_ORDER :: "Flag list" where
  "RAT_FLAG_ORDER = [ACK, NACK, SWIN, RST, ALI, HLO, BYE, EXP]"

subsection \<open>Builtins: \<open>bin\<close>, \<open>int(bytes, 2)\<close>, UTF-8\<close>

text \<open>
  \<open>bin(n)\<close> is \<open>0b\<close> followed by the binary digits of \<open>n\<close>, most significant first, and
  \<open>-0b\<close> followed by the digits of \<open>-n\<close> when \<open>n\<close> is negative.
\<close>

fun bin_digits :: "nat \<Rightarrow> pystr" where
  "bin_digits n = (if n < 2 then [48 + n] else bin_digits (n div 2) @ [48 + n mod 2])"

definition bin :: "int \<Rightarrow> pystr" where
  "bin n = (if n < 0 then ascii ''-0b'' @ bin_digits (nat (- n))
            else ascii ''0b'' @ bin_digits (nat n))"

text \<open>
  \<open>bytes(s, "utf-8")\<close> and \<open>str(b, "utf-8")\<close>: the strict UTF-8 codec. Surrogates cannot be
  encoded; overlong forms, surrogates, truncated sequences and values above 0x10FFFF cannot be
  decoded.
\<close>

fun utf8_encode :: "pystr \<Rightarrow> exn + bytes" where
  "utf8_encode [] = Inr []"
| "utf8_encode (c # cs) =
     (if 0xD800 \<le> c \<and> c \<le> 0xDFFF then Inl UnicodeEncodeError
      else case utf8_encode cs of
        Inl e \<Rightarrow> Inl e
      | Inr bs \<Rightarrow>
          Inr ((if c < 0x80 then [char_of c]
                else if c < 0x800 then [char_of (0xC0 + c div 64), char_of (0x80 + c mod 64)]
                else if c < 0x10000 then
                  [char_of (0xE0 + c div 4096), char_of (0x80 + c div 64 mod 64),
                   char_of (0x80 + c mod 64)]
                else
                  [char_of (0xF0 + c div 262144), char_of (0x80 + c div 4096 mod 64),
                   char_of (0x80 + c div 64 mod 64), char_of (0x80 + c mod 64)]) @ bs))"

definition cont :: "char \<Rightarrow> bool" where
  "cont b = (0x80 \<le> (of_char b :: nat) \<and> (of_char b :: nat) \<le> 0xBF)"

definition low6 :: "char \<Rightarrow> nat" where
  "low6 b = of_char b mod 64"

definition push_cp :: "nat \<Rightarrow> exn + pystr \<Rightarrow> exn + pystr" where
  "push_cp c r = (case r of Inl e \<Rightarrow> Inl e | Inr s \<Rightarrow> Inr (c # s))"

fun utf8_decode :: "bytes \<Rightarrow> exn + pystr" where
  "utf8_decode [] = Inr []"
| "utf8_decode [b] =
     (if (of_char b :: nat) < 0x80 then Inr [of_char b] else Inl UnicodeDecodeError)"
| "utf8_decode [b, b1] =
     (let n = of_char b :: nat in
      if n < 0x80 then push_cp n (utf8_decode [b1])
      else if 0xC2 \<le> n \<and> n \<le> 0xDF \<and> cont b1 then Inr [(n mod 32) * 64 + low6 b1]
      else Inl UnicodeDecodeError)"
| "utf8_decode [b, b1, b2] =
     (let n = of_char b :: nat; n1 = of_char b1 :: nat in
      if n < 0x80 then push_cp n (utf8_decode [b1, b2])
      else if 0xC2 \<le> n \<and> n \<le> 0xDF \<and> cont b1 then
        push_cp ((n mod 32) * 64 + low6 b1) (utf8_decode [b2])
      else if 0xE0 \<le> n \<and> n \<le> 0xEF \<and> cont b1 \<and> cont b2
              \<and> (n = 0xE0 \<longrightarrow> 0xA0 \<le> n1) \<and> (n = 0xED \<longrightarrow> n1 \<le> 0x9F) then
        Inr [(n mod 16) * 4096 + low6 b1 * 64 + low6 b2]
      else Inl UnicodeDecodeError)"
| "utf8_decode (b # b1 # b2 # b3 # bs) =
     (let n = of_char b :: nat; n1 = of_char b1 :: nat in
      if n < 0x80 then push_cp n (utf8_decode (b1 # b2 # b3 # bs))
      else if 0xC2 \<le> n \<and> n \<le> 0xDF \<and> cont b1 then
        push_cp ((n mod 32) * 64 + low6 b1) (utf8_decode (b2 # b3 # bs))
      else if 0xE0 \<le> n \<and> n \<le> 0xEF \<and> cont b1 \<and> cont b2
              \<and> (n = 0xE0 \<longrightarrow> 0xA0 \<le> n1) \<and> (n = 0xED \<longrightarrow> n1 \<le> 0x9F) then
        push_cp ((n mod 16) * 4096 + low6 b1 * 64 + low6 b2) (utf8_decode (b3 # bs))
      else if 0xF0 \<le> n \<and> n \<le> 0xF4 \<and> cont b1 \<and> cont b2 \<and> cont b3
              \<and> (n = 0xF0 \<longrightarrow> 0x90 \<le> n1) \<and> (n = 0xF4 \<longrightarrow> n1 \<le> 0x8F) then
        push_cp ((n mod 8) * 262144 + low6 b1 * 4096 + low6 b2 * 64 + low6 b3) (utf8_decode bs)
      else Inl UnicodeDecodeError)"

text \<open>
  \<open>int(b, 2)\<close> on a bytes object: optional surrounding whitespace, an optional sign, an optional
  \<open>0b\<close> prefix (after which one underscore may follow), then binary digits with single
  underscores between them; anything else raises \<open>ValueError\<close>.
\<close>

definition py_isspace :: "char \<Rightarrow> bool" where
  "py_isspace c = (c \<in> set [CHR 0x09, CHR 0x0A, CHR 0x0B, CHR 0x0C, CHR 0x0D, CHR 0x20])"

fun long_from_binary_base :: "char \<Rightarrow> int \<Rightarrow> bytes \<Rightarrow> (int \<times> bytes) option" where
  "long_from_binary_base prev z [] = (if prev = CHR ''_'' then None else Some (z, []))"
| "long_from_binary_base prev z (c # cs) =
     (if c = CHR ''0'' then long_from_binary_base c (2 * z) cs
      else if c = CHR ''1'' then long_from_binary_base c (2 * z + 1) cs
      else if c = CHR ''_'' then
        (if prev = CHR ''_'' then None else long_from_binary_base c z cs)
      else if prev = CHR ''_'' then None
      else Some (z, c # cs))"

definition strip_sign :: "bytes \<Rightarrow> int \<times> bytes" where
  "strip_sign s =
     (case s of
        [] \<Rightarrow> (1, [])
      | c # r \<Rightarrow> if c = CHR ''+'' then (1, r) else if c = CHR ''-'' then (- 1, r) else (1, s))"

definition strip_prefix_0b :: "bytes \<Rightarrow> bytes" where
  "strip_prefix_0b s =
     (case s of
        c0 # c1 # r \<Rightarrow>
          if c0 = CHR ''0'' \<and> (c1 = CHR ''b'' \<or> c1 = CHR ''B'') then
            (case r of [] \<Rightarrow> r | u # r' \<Rightarrow> if u = CHR ''_'' then r' else r)
          else s
      | _ \<Rightarrow> s)"

definition int_base2 :: "bytes \<Rightarrow> exn + int" where
  "int_base2 b =
     (let (sign, s) = strip_sign (dropWhile py_isspace b);
          start = strip_prefix_0b s
      in case start of
           [] \<Rightarrow> Inl ValueError
         | c # _ \<Rightarrow>
             if c = CHR ''_'' then Inl ValueError
             else case long_from_binary_base (CHR 0x00) 0 start of
               None \<Rightarrow> Inl ValueError
             | Some (z, rest) \<Rightarrow>
                 if length rest = length start then Inl ValueError
                 else if dropWhile py_isspace rest \<noteq> [] then Inl ValueError
                 else Inr (sign * z))"

section \<open>Header codec and flag field\<close>

text \<open>The dictionary returned by \<open>decode_rat_header\<close>, one field per key.\<close>

record header =
  hdr_stream_id :: int
  hdr_seq_num :: int
  hdr_length :: int
  hdr_flags :: pystr
  hdr_offset :: int

text \<open>The slice \<open>xs[i:j]\<close> for \<open>0 \<le> i \<le> j\<close>.\<close>

definition slice :: "nat \<Rightarrow> nat \<Rightarrow> 'a list \<Rightarrow> 'a list" where
  "slice i j xs = take (j - i) (drop i xs)"

text \<open>
  \<open>flag_set\<close> appends one character per flag of \<open>RAT_FLAG_ORDER\<close>. \<open>flag_decode\<close> reads
  the characters at indices 0 to 7; indexing past the end of the string raises \<open>IndexError\<close>.
  The test \<open>flag_field_bits[bit] is "1"\<close> compares one-character strings, which CPython
  shares, so it holds exactly when the character is \<open>1\<close>.
\<close>

definition flag_set :: "Flag list \<Rightarrow> pystr" where
  "flag_set flags =
     foldl (\<lambda>output flag. if flag \<in> set flags then output @ ascii ''1'' else output @ ascii ''0'')
       [] RAT_FLAG_ORDER"

fun flag_decode_loop :: "pystr \<Rightarrow> nat list \<Rightarrow> Flag list \<Rightarrow> exn + Flag list" where
  "flag_decode_loop flag_field_bits [] flag_list = Inr flag_list"
| "flag_decode_loop flag_field_bits (b # bs) flag_list =
     (if b < length flag_field_bits then
        flag_decode_loop flag_field_bits bs
          (if [flag_field_bits ! b] = ascii ''1'' then flag_list @ [RAT_FLAG_ORDER ! b]
           else flag_list)
      else Inl IndexError)"

definition flag_decode :: "pystr \<Rightarrow> exn + Flag list" where
  "flag_decode flag_field_bits = flag_decode_loop flag_field_bits [0, 1, 2, 3, 4, 5, 6, 7] []"

text \<open>
  \<open>zero_pad\<close> drops the first two characters of \<open>bin(num)\<close> and pads on the left; the
  out-of-range test looks only at the length of what is left.
\<close>

definition zero_pad :: "int \<Rightarrow> int \<Rightarrow> exn + bytes" where
  "zero_pad num len =
     (let num' = drop 2 (bin num);
          padding = len - int (length num')
      in if padding < 0 then Inl (AssertionError ERR_NUM_OUT_OF_RANGE)
         else utf8_encode (concat (replicate (nat padding) (ascii ''0'')) @ num'))"

text \<open>
  \<open>construct_header\<close> reads \<open>stream_id\<close> and \<open>seq_num\<close> from the socket; they are parameters
  here, and the socket operations below pass the socket's fields.
\<close>

definition header_bytes :: "int \<Rightarrow> int \<Rightarrow> int \<Rightarrow> pystr \<Rightarrow> int \<Rightarrow> exn + bytes" where
  "header_bytes sid seq len flags offset =
     (case zero_pad sid 16 of Inl e \<Rightarrow> Inl e | Inr b1 \<Rightarrow>
      case zero_pad seq 16 of Inl e \<Rightarrow> Inl e | Inr b2 \<Rightarrow>
      case zero_pad len 16 of Inl e \<Rightarrow> Inl e | Inr b3 \<Rightarrow>
      case utf8_encode flags of Inl e \<Rightarrow> Inl e | Inr b4 \<Rightarrow>
      case zero_pad offset 8 of Inl e \<Rightarrow> Inl e | Inr b5 \<Rightarrow>
      Inr ([] @ b1 @ b2 @ b3 @ b4 @ b5))"

definition decode_rat_header :: "bytes \<Rightarrow> exn + header" where
  "decode_rat_header byte_stream =
     (if length byte_stream \<noteq> RAT_HEADER_SIZE then Inl (IOError ERR_HEADER_INVALID)
      else
        case int_base2 (slice 0 16 byte_stream) of Inl e \<Rightarrow> Inl e | Inr stream_id \<Rightarrow>
        case int_base2 (slice 16 32 byte_stream) of Inl e \<Rightarrow> Inl e | Inr seq_num \<Rightarrow>
        case int_base2 (slice 32 48 byte_stream) of Inl e \<Rightarrow> Inl e | Inr len \<Rightarrow>
        case utf8_decode (slice 48 56 byte_stream) of Inl e \<Rightarrow> Inl e | Inr flags \<Rightarrow>
        case int_base2 (slice 56 64 byte_stream) of Inl e \<Rightarrow> Inl e | Inr offset \<Rightarrow>
        Inr \<lparr>hdr_stream_id = stream_id, hdr_seq_num = seq_num, hdr_length = len,
             hdr_flags = flags, hdr_offset = offset\<rparr>)"

section \<open>Sockets and the network\<close>

type_synonym addr = "string \<times> int"

text \<open>
  The UDP socket a \<open>RatSocket\<close> owns: the value given to \<open>settimeout\<close> (\<open>None\<close> blocks) and
  the address given to \<open>bind\<close>.
\<close>

record udp_socket =
  udp_timeout :: "rat option"
  udp_bound :: "addr option"

text \<open>
  The fields of a \<open>RatSocket\<close>. \<open>oid\<close> is the identity of the object; \<open>active_streams\<close> holds
  references to the child sockets appended to it.
\<close>

record RatSocket =
  oid :: nat
  current_state :: State
  udp :: udp_socket
  stream_id :: int
  seq_num :: int
  window_size :: int
  remote_addr :: addr
  active_streams :: "nat list"
  sock_queue :: "nat list"
  obey_keepalives :: bool
  num_connections :: int
  debug_mode :: bool

text \<open>
  What surrounds the module: the outcomes of successive \<open>recvfrom\<close> calls (a datagram or an
  error raised by the socket), of successive \<open>sendto\<close> calls (\<open>None\<close> delivers the datagram to
  the network), of \<open>bind\<close>, the numbers drawn by \<open>randrange\<close>, the datagrams handed to the
  network so far, and the identity of the next object created.
\<close>

datatype event = Datagram bytes addr | Fault exn

record world =
  inbox :: "event list"
  send_faults :: "exn option list"
  bind_fault :: "exn option"
  randoms :: "nat list"
  sent :: "(bytes \<times> addr) list"
  next_oid :: nat

text \<open>
  \<open>recvfrom(bufsize)\<close> returns at most \<open>bufsize\<close> bytes of the next datagram. When nothing is
  left to arrive it raises \<open>socket.timeout\<close> if a timeout is set and never returns otherwise
  (\<open>None\<close>).
\<close>

definition recvfrom :: "udp_socket \<Rightarrow> nat \<Rightarrow> world \<Rightarrow> ((exn + bytes \<times> addr) \<times> world) option" where
  "recvfrom u bufsize w =
     (case inbox w of
        [] \<Rightarrow> (case udp_timeout u of None \<Rightarrow> None | Some t \<Rightarrow> Some (Inl Timeout, w))
      | Datagram d a # rest \<Rightarrow> Some (Inr (take bufsize d, a), w\<lparr>inbox := rest\<rparr>)
      | Fault e # rest \<Rightarrow> Some (Inl e, w\<lparr>inbox := rest\<rparr>))"

definition sendto :: "bytes \<Rightarrow> addr \<Rightarrow> world \<Rightarrow> (exn + nat) \<times> world" where
  "sendto d a w =
     (case send_faults w of
        [] \<Rightarrow> (Inr (length d), w\<lparr>sent := sent w @ [(d, a)]\<rparr>)
      | None # fs \<Rightarrow> (Inr (length d), w\<lparr>sent := sent w @ [(d, a)], send_faults := fs\<rparr>)
      | Some e # fs \<Rightarrow> (Inl e, w\<lparr>send_faults := fs\<rparr>))"

definition bind :: "addr \<Rightarrow> world \<Rightarrow> exn + unit" where
  "bind a w = (case bind_fault w of None \<Rightarrow> Inr () | Some e \<Rightarrow> Inl e)"

definition randrange :: "int \<Rightarrow> int \<Rightarrow> world \<Rightarrow> int \<times> world" where
  "randrange start stop w =
     (case randoms w of
        [] \<Rightarrow> (start, w)
      | r # rs \<Rightarrow> (start + int r mod (stop - start), w\<lparr>randoms := rs\<rparr>))"

text \<open>
  A bare name that is bound neither in the function, nor at module level, nor as a builtin:
  evaluating it raises \<open>NameError\<close>, before any argument of the call is evaluated. The methods
  of \<open>RatSocket\<close> are bound only as attributes of the class.
\<close>

definition unbound :: "string \<Rightarrow> exn + 'a" where
  "unbound name = Inl (NameError name)"

section \<open>The operations of \<open>RatSocket\<close>\<close>

definition RatSocket_init :: "bool \<Rightarrow> world \<Rightarrow> RatSocket \<times> world" where
  "RatSocket_init debug w =
     (\<lparr>oid = next_oid w, current_state = SOCK_UNOPENED,
       udp = \<lparr>udp_timeout = None, udp_bound = None\<rparr>,
       stream_id = 0, seq_num = 0, window_size = 0,
       remote_addr = (''localhost'', 0), active_streams = [], sock_queue = [],
       obey_keepalives = True, num_connections = 0, debug_mode = debug\<rparr>,
      w\<lparr>next_oid := next_oid w + 1\<rparr>)"

definition construct_header :: "RatSocket \<Rightarrow> int \<Rightarrow> pystr \<Rightarrow> int \<Rightarrow> exn + bytes" where
  "construct_header self len flags offset =
     header_bytes (stream_id self) (seq_num self) len flags offset"

text \<open>
  \<open>state_check\<close> is called with one state (\<open>listen\<close>, \<open>accept\<close>) and with a list of states
  (\<open>recv\<close>). \<open>!=\<close> between a state and a list is true; \<open>not in\<close> applied to a single enum
  member raises \<open>TypeError\<close>, since a member is not a container.
\<close>

datatype state_arg = One State | Many "State list"

fun py_ne :: "State \<Rightarrow> state_arg \<Rightarrow> bool" where
  "py_ne s (One t) = (s \<noteq> t)"
| "py_ne s (Many ts) = True"

fun py_not_in :: "State \<Rightarrow> state_arg \<Rightarrow> exn + bool" where
  "py_not_in s (One t) = Inl TypeError"
| "py_not_in s (Many ts) = Inr (s \<notin> set ts)"

definition state_check :: "RatSocket \<Rightarrow> state_arg \<Rightarrow> exn + unit" where
  "state_check self state =
     (if py_ne (current_state self) state then
        (case py_not_in (current_state self) state of
           Inl e \<Rightarrow> Inl e
         | Inr b \<Rightarrow> if b then Inl (IOError ERR_STATE) else Inr ())
      else Inr ())"

definition listen ::
  "RatSocket \<Rightarrow> string \<Rightarrow> int \<Rightarrow> int \<Rightarrow> world \<Rightarrow> (exn + unit) \<times> RatSocket \<times> world" where
  "listen self address port n w =
     (case state_check self (One SOCK_UNOPENED) of
        Inl e \<Rightarrow> (Inl e, self, w)
      | Inr _ \<Rightarrow>
          (case bind (address, port) w of
             Inl e \<Rightarrow> (Inl e, self, w)
           | Inr _ \<Rightarrow>
               (Inr (),
                self\<lparr>udp := (udp self)\<lparr>udp_bound := Some (address, port)\<rparr>,
                     num_connections := n, current_state := SOCK_SERVOPEN\<rparr>,
                w)))"

text \<open>
  The values the locals \<open>ack\<close> (in \<open>accept\<close>) and \<open>segment\<close> (in \<open>connect\<close>) hold: the empty
  dictionary they start with, bytes, or a decoded header.
\<close>

datatype pyval = EmptyDict | Raw bytes | Decoded header

text \<open>What \<open>accept\<close> returns: \<open>False\<close> or the client socket.\<close>

datatype accepted = ReturnFalse | Client RatSocket

text \<open>
  The condition of the retry loop of \<open>accept\<close>,
  \<open>retry_times != 0 and not flag_header(ack, Flag.ACK)\<close>: \<open>and\<close> evaluates its right operand
  only when the left one is true, and \<open>flag_header\<close> is bound nowhere.
\<close>

definition accept_cond :: "int \<Rightarrow> pyval \<Rightarrow> exn + bool" where
  "accept_cond retry_times ack =
     (if retry_times \<noteq> 0 then
        (case (unbound ''flag_header'' :: exn + bool) of Inl e \<Rightarrow> Inl e | Inr b \<Rightarrow> Inr (\<not> b))
      else Inr False)"

text \<open>
  One pass through the body of the loop: the \<open>try\<close> block, in which any exception is caught
  and costs one retry. The result is the new \<open>retry_times\<close> and \<open>ack\<close>.
\<close>

definition accept_attempt ::
  "RatSocket \<Rightarrow> RatSocket \<Rightarrow> int \<Rightarrow> pyval \<Rightarrow> world \<Rightarrow> (int \<times> pyval \<times> world) option" where
  "accept_attempt self client retry_times ack w =
     (case construct_header client 0 (flag_set [ACK, HLO]) 0 of
        Inl e \<Rightarrow> Some (retry_times - 1, ack, w)
      | Inr response \<Rightarrow>
          (case sendto response (remote_addr client) w of
             (Inl e, w1) \<Rightarrow> Some (retry_times - 1, ack, w1)
           | (Inr n, w1) \<Rightarrow>
               (case recvfrom (udp self) RAT_HEADER_SIZE w1 of
                  None \<Rightarrow> None
                | Some (Inl e, w2) \<Rightarrow> Some (retry_times - 1, ack, w2)
                | Some (Inr (d, a), w2) \<Rightarrow>
                    (case decode_rat_header d of
                       Inl e \<Rightarrow> Some (retry_times - 1, Raw d, w2)
                     | Inr h \<Rightarrow> Some (retry_times, Decoded h, w2)))))"

function accept_loop ::
  "RatSocket \<Rightarrow> RatSocket \<Rightarrow> int \<Rightarrow> pyval \<Rightarrow> world \<Rightarrow> ((exn + int \<times> pyval) \<times> world) option" where
  "accept_loop self client retry_times ack w =
     (case accept_cond retry_times ack of
        Inl e \<Rightarrow> Some (Inl e, w)
      | Inr go \<Rightarrow>
          if go then
            (case accept_attempt self client retry_times ack w of
               None \<Rightarrow> None
             | Some (retry_times', ack', w') \<Rightarrow> accept_loop self client retry_times' ack' w')
          else Some (Inr (retry_times, ack), w))"
  by pat_completeness auto
termination
  by (relation "{}") (auto simp: accept_cond_def unbound_def split: if_splits)

definition accept :: "RatSocket \<Rightarrow> world \<Rightarrow> ((exn + accepted) \<times> RatSocket \<times> world) option" where
  "accept self w =
     (case state_check self (One SOCK_SERVOPEN) of
        Inl e \<Rightarrow> Some (Inl e, self, w)
      | Inr _ \<Rightarrow>
          (let retry_times = RAT_RETRY_TIMES in
           case recvfrom (udp self) RAT_HEADER_SIZE w of
             None \<Rightarrow> None
           | Some (Inl e, w1) \<Rightarrow> Some (Inl e, self, w1)
           | Some (Inr (hlo, address), w1) \<Rightarrow>
               (case decode_rat_header hlo of
                  Inl e \<Rightarrow> Some (Inl e, self, w1)
                | Inr hlo \<Rightarrow>
                    (case flag_decode (hdr_flags hlo) of
                       Inl e \<Rightarrow> Some (Inl e, self, w1)
                     | Inr flags \<Rightarrow>
                         if HLO \<in> set flags then
                           (let self1 = self\<lparr>udp := (udp self)\<lparr>udp_timeout := Some RAT_REPLY_TIMEOUT\<rparr>\<rparr>;
                                (client0, w2) = RatSocket_init False w1;
                                (sid, w3) = randrange 1 RAT_MAX_STREAM_ID w2;
                                client1 = client0\<lparr>remote_addr := address,
                                                  current_state := SOCK_HLORECV,
                                                  stream_id := sid,
                                                  window_size := RAT_DEFAULT_WINDOW\<rparr>;
                                self2 = self1\<lparr>active_streams := active_streams self1 @ [oid client1]\<rparr>;
                                client = client1\<lparr>seq_num := seq_num client1 + 1\<rparr>
                            in case accept_loop self2 client retry_times EmptyDict w3 of
                                 None \<Rightarrow> None
                               | Some (Inl e, w4) \<Rightarrow> Some (Inl e, self2, w4)
                               | Some (Inr (retry_times', ack), w4) \<Rightarrow>
                                   if retry_times' = 0 then Some (Inr ReturnFalse, self2, w4)
                                   else Some (Inr (Client (client\<lparr>current_state := SOCK_ESTABLISHED\<rparr>)),
                                              self2, w4))
                         else Some (Inr ReturnFalse, self, w1)))))"

text \<open>\<open>allow_keepalives\<close> stores its argument.\<close>

definition allow_keepalives :: "RatSocket \<Rightarrow> bool \<Rightarrow> RatSocket" where
  "allow_keepalives self v = self\<lparr>obey_keepalives := v\<rparr>"

text \<open>
  \<open>connect\<close> never assigns \<open>retry_times\<close> before its loop reads it; the assignment in the
  \<open>except\<close> clause makes it a local of the function, so the local is \<open>None\<close> (unbound) on entry
  and reading it raises \<open>UnboundLocalError\<close>.
\<close>

definition connect_cond :: "int option \<Rightarrow> pyval \<Rightarrow> exn + bool" where
  "connect_cond retry_times segment =
     (case retry_times of
        None \<Rightarrow> Inl (UnboundLocalError ''retry_times'')
      | Some r \<Rightarrow>
          if r \<noteq> 0 then
            (case (unbound ''flag_header'' :: exn + bool) of Inl e \<Rightarrow> Inl e | Inr b \<Rightarrow> Inr (\<not> b))
          else Inr False)"

text \<open>
  The \<open>try\<close> block of \<open>connect\<close>: the first component tells whether an exception was caught.
\<close>

definition connect_attempt ::
  "RatSocket \<Rightarrow> pyval \<Rightarrow> world \<Rightarrow> (bool \<times> pyval \<times> RatSocket \<times> world) option" where
  "connect_attempt self segment w =
     (case construct_header self 0 (flag_set [HLO]) 0 of
        Inl e \<Rightarrow> Some (True, segment, self, w)
      | Inr hdr \<Rightarrow>
          (case sendto hdr (remote_addr self) w of
             (Inl e, w1) \<Rightarrow> Some (True, Raw hdr, self, w1)
           | (Inr n, w1) \<Rightarrow>
               (let self1 = self\<lparr>current_state := SOCK_HLOSENT\<rparr> in
                case recvfrom (udp self1) RAT_HEADER_SIZE w1 of
                  None \<Rightarrow> None
                | Some (Inl e, w2) \<Rightarrow> Some (True, Raw hdr, self1, w2)
                | Some (Inr (d, a), w2) \<Rightarrow>
                    (case decode_rat_header d of
                       Inl e \<Rightarrow> Some (True, Raw d, self1, w2)
                     | Inr h \<Rightarrow>
                         Some (False, Decoded h,
                               self1\<lparr>stream_id := hdr_stream_id h, seq_num := hdr_seq_num h\<rparr>,
                               w2)))))"

function connect_loop ::
  "RatSocket \<Rightarrow> int option \<Rightarrow> pyval \<Rightarrow> world
    \<Rightarrow> ((exn + int option \<times> pyval) \<times> RatSocket \<times> world) option" where
  "connect_loop self retry_times segment w =
     (case connect_cond retry_times segment of
        Inl e \<Rightarrow> Some (Inl e, self, w)
      | Inr go \<Rightarrow>
          if go then
            (case connect_attempt self segment w of
               None \<Rightarrow> None
             | Some (caught, segment', self', w') \<Rightarrow>
                 if caught then
                   (case retry_times of
                      None \<Rightarrow> Some (Inl (UnboundLocalError ''retry_times''), self', w')
                    | Some r \<Rightarrow> connect_loop self' (Some (r - 1)) segment' w')
                 else connect_loop self' retry_times segment' w')
          else Some (Inr (retry_times, segment), self, w))"
  by pat_completeness auto
termination
  by (relation "{}")
    (auto simp: connect_cond_def unbound_def split: if_splits option.splits)

definition connect ::
  "RatSocket \<Rightarrow> string \<Rightarrow> int \<Rightarrow> bool \<Rightarrow> world \<Rightarrow> ((exn + unit) \<times> RatSocket \<times> world) option" where
  "connect self address port send_keepalives w =
     (let self1 = self\<lparr>udp := (udp self)\<lparr>udp_timeout := Some RAT_REPLY_TIMEOUT\<rparr>,
                       remote_addr := (address, port)\<rparr>
      in case connect_loop self1 None EmptyDict w of
           None \<Rightarrow> None
         | Some (Inl e, self2, w2) \<Rightarrow> Some (Inl e, self2, w2)
         | Some (Inr _, self2, w2) \<Rightarrow>
             (case construct_header self2 0 (flag_set [ACK]) 0 of
                Inl e \<Rightarrow> Some (Inl e, self2, w2)
              | Inr segment \<Rightarrow>
                  (case sendto segment (remote_addr self2) w2 of
                     (Inl e, w3) \<Rightarrow> Some (Inl e, self2, w3)
                   | (Inr n, w3) \<Rightarrow>
                       Some (Inr (), self2\<lparr>current_state := SOCK_ESTABLISHED\<rparr>, w3))))"

text \<open>
  \<open>send\<close>: the first loop cuts the byte stream into chunks and calls the bare name
  \<open>construct_header\<close>; the second loop starts by reading the bare name \<open>window_size\<close> and,
  inside, the bare name \<open>udp\<close>. With a window that is not positive the second loop would
  never end (\<open>None\<close>).
\<close>

function send_fill :: "RatSocket \<Rightarrow> bytes \<Rightarrow> bytes list \<Rightarrow> (exn + bytes list) \<times> RatSocket" where
  "send_fill self bs send_queue =
     (if length bs \<noteq> 0 then
        (let data = take RAT_PAYLOAD_SIZE bs;
             bs' = drop RAT_PAYLOAD_SIZE bs
         in case (unbound ''construct_header'' :: exn + bytes) of
              Inl e \<Rightarrow> (Inl e, self)
            | Inr hdr \<Rightarrow>
                send_fill (self\<lparr>seq_num := seq_num self + 1\<rparr>) bs' (send_queue @ [hdr @ data]))
      else (Inr send_queue, self))"
  by pat_completeness auto
termination
  by (relation "measure (\<lambda>(self, bs, q). length bs)") (auto simp: RAT_PAYLOAD_SIZE_def)

definition send_window :: "bytes list \<Rightarrow> (exn + unit) option" where
  "send_window send_queue =
     (if length send_queue > 0 then
        (case (unbound ''window_size'' :: exn + int) of
           Inl e \<Rightarrow> Some (Inl e)
         | Inr window_remain \<Rightarrow>
             if window_remain > 0 then Some (unbound ''udp'') else None)
      else Some (Inr ()))"

definition send :: "RatSocket \<Rightarrow> bytes \<Rightarrow> world \<Rightarrow> ((exn + unit) \<times> RatSocket \<times> world) option" where
  "send self bs w =
     (case send_fill self bs [] of
        (Inl e, self') \<Rightarrow> Some (Inl e, self', w)
      | (Inr send_queue, self') \<Rightarrow>
          (case send_window send_queue of
             None \<Rightarrow> None
           | Some r \<Rightarrow> Some (r, self', w)))"

text \<open>
  \<open>recv\<close>: its first statement calls the bare name \<open>state_check\<close>, outside the \<open>try\<close> block.
  Inside the loops the first statement calls the bare name \<open>decode_rat_header\<close>; a
  \<open>NameError\<close> is not an \<open>IOError\<close>, so the handler does not catch it. The function has no
  \<open>return\<close> statement: when it ends it returns \<open>None\<close>.
\<close>

definition recv :: "RatSocket \<Rightarrow> int \<Rightarrow> world \<Rightarrow> ((exn + unit) \<times> RatSocket \<times> world) option" where
  "recv self buffer_size w =
     (case (unbound ''state_check'' :: exn + unit) of
        Inl e \<Rightarrow> Some (Inl e, self, w)
      | Inr _ \<Rightarrow>
          (let bytes_read = (0::int); segments_recv = (0::int) in
           if bytes_read < buffer_size then
             (if segments_recv < window_size self then
                Some (unbound ''decode_rat_header'', self, w)
              else None)
           else Some (Inr (), self, w)))"

text \<open>The body of \<open>close\<close> is \<open>pass\<close>.\<close>

definition close :: "RatSocket \<Rightarrow> world \<Rightarrow> (exn + unit) \<times> RatSocket \<times> world" where
  "close self w = (Inr (), self, w)"

text \<open>
  \<open>ack\<close>: the header is built before the loop, outside any \<open>try\<close>; the loop sends until one
  \<open>sendto\<close> succeeds or \<open>retry_times\<close> reaches zero; \<open>seq_num\<close> is incremented after the loop.
\<close>

function ack_loop :: "bytes \<Rightarrow> addr \<Rightarrow> int \<Rightarrow> bool \<Rightarrow> world \<Rightarrow> int \<times> bool \<times> world" where
  "ack_loop ack a retry_times was_sent w =
     (if retry_times \<noteq> 0 \<and> \<not> was_sent then
        (case sendto ack a w of
           (Inl e, w') \<Rightarrow> ack_loop ack a (retry_times - 1) was_sent w'
         | (Inr n, w') \<Rightarrow> ack_loop ack a retry_times True w')
      else (retry_times, was_sent, w))"
  by pat_completeness auto
termination
  by (relation "measure (\<lambda>(ack, a, r, s, w). if s then 0 else 1 + length (send_faults w))")
    (auto simp: sendto_def split: list.splits option.splits)

definition ack :: "RatSocket \<Rightarrow> world \<Rightarrow> (exn + unit) \<times> RatSocket \<times> world" where
  "ack self w =
     (case construct_header self 0 (flag_set [ACK]) 0 of
        Inl e \<Rightarrow> (Inl e, self, w)
      | Inr hdr \<Rightarrow>
          (case ack_loop hdr (remote_addr self) RAT_RETRY_TIMES False w of
             (retry_times, was_sent, w') \<Rightarrow> (Inr (), self\<lparr>seq_num := seq_num self + 1\<rparr>, w')))"

section \<open>Example sockets and networks\<close>

text \<open>A network on which nothing arrives and every send succeeds.\<close>

definition quiet_world :: world where
  "quiet_world =
     \<lparr>inbox = [], send_faults = [], bind_fault = None, randoms = [], sent = [], next_oid = 0\<rparr>"

text \<open>A socket as the constructor leaves it.\<close>

definition fresh_socket :: RatSocket where
  "fresh_socket = fst (RatSocket_init False quiet_world)"

text \<open>The two ends of an established connection on stream 42.\<close>

definition established_client :: RatSocket where
  "established_client =
     fresh_socket\<lparr>current_state := SOCK_ESTABLISHED, stream_id := 42, seq_num := 1,
                  window_size := 5, remote_addr := (''127.0.0.1'', 5001)\<rparr>"

definition established_server :: RatSocket where
  "established_server =
     fresh_socket\<lparr>oid := 1, current_state := SOCK_ESTABLISHED, stream_id := 42, seq_num := 1,
                  window_size := 5, remote_addr := (''127.0.0.1'', 4000)\<rparr>"

text \<open>A listener after \<open>listen("127.0.0.1", 5001, 5)\<close>.\<close>

definition listener :: RatSocket where
  "listener =
     fresh_socket\<lparr>udp := \<lparr>udp_timeout = None, udp_bound = Some (''127.0.0.1'', 5001)\<rparr>,
                  num_connections := 5, current_state := SOCK_SERVOPEN\<rparr>"

text \<open>
  The segment a client sends to open a connection (stream 0, sequence number 0, length 0,
  flag HLO, offset 0), and a network that delivers it and then stays silent.
\<close>

definition hlo_segment :: bytes where
  "hlo_segment = ''0000000000000000000000000000000000000000000000000000010000000000''"

definition hlo_then_silence :: world where
  "hlo_then_silence =
     \<lparr>inbox = [Datagram hlo_segment (''127.0.0.1'', 4000)], send_faults = [], bind_fault = None,
      randoms = [41], sent = [], next_oid = 1\<rparr>"

text \<open>A network on which the next five sends fail.\<close>

definition five_send_faults :: world where
  "five_send_faults =
     \<lparr>inbox = [], send_faults = [Some OSError, Some OSError, Some OSError, Some OSError, Some OSError],
      bind_fault = None, randoms = [], sent = [], next_oid = 1\<rparr>"

section \<open>Notions used in the proofs\<close>

text \<open>Strings of binary digits and the number they denote, read from a start value.\<close>

definition bits :: "bytes \<Rightarrow> bool" where
  "bits s = (set s \<subseteq> {CHR ''0'', CHR ''1''})"

definition bin_val :: "int \<Rightarrow> bytes \<Rightarrow> int" where
  "bin_val z s = foldl (\<lambda>a c. 2 * a + (if c = CHR ''1'' then 1 else 0)) z s"

text \<open>The bytes of an ASCII string, and a number written on \<open>w\<close> binary digits.\<close>

definition to_bytes :: "pystr \<Rightarrow> bytes" where
  "to_bytes s = map char_of s"

definition field :: "nat \<Rightarrow> int \<Rightarrow> bytes" where
  "field w x = replicate (w - length (bin_digits (nat x))) (CHR ''0'') @ to_bytes (bin_digits (nat x))"

section \<open>Properties of the codec\<close>

lemma flag_set_unfold:
  "flag_set F = map (\<lambda>f. if f \<in> set F then 49 else 48) RAT_FLAG_ORDER"
  by (simp add: flag_set_def RAT_FLAG_ORDER_def ascii_def)

lemma flag_decode_flag_set:
  "flag_decode (flag_set F) = Inr (filter (\<lambda>f. f \<in> set F) RAT_FLAG_ORDER)"
  by (simp add: flag_set_unfold flag_decode_def RAT_FLAG_ORDER_def ascii_def)

lemma set_filter_flags: "set (filter (\<lambda>f. f \<in> set F) RAT_FLAG_ORDER) = set F"
proof -
  have "f \<in> set RAT_FLAG_ORDER" for f by (cases f) (simp_all add: RAT_FLAG_ORDER_def)
  then show ?thesis by auto
qed

lemma flag_decode_loop_total:
  "\<forall>b \<in> set bs. b < length s \<Longrightarrow> \<exists>fs. flag_decode_loop s bs acc = Inr fs"
  by (induction bs arbitrary: acc) auto

lemma flag_decode_total: "length s = 8 \<Longrightarrow> \<exists>fs. flag_decode s = Inr fs"
  unfolding flag_decode_def by (rule flag_decode_loop_total) simp

lemma scan_bits:
  "bits s \<Longrightarrow> s \<noteq> [] \<or> prev \<noteq> CHR ''_'' \<Longrightarrow> long_from_binary_base prev z s = Some (bin_val z s, [])"
proof (induction s arbitrary: prev z)
  case Nil
  then show ?case by (simp add: bin_val_def)
next
  case (Cons c cs)
  then show ?case by (auto simp: bits_def bin_val_def)
qed

lemma int_base2_bits:
  assumes "bits s" "s \<noteq> []"
  shows "int_base2 s = Inr (bin_val 0 s)"
proof -
  obtain c cs where s: "s = c # cs" using assms(2) by (cases s) auto
  have c: "c = CHR ''0'' \<or> c = CHR ''1''" using assms(1) s by (auto simp: bits_def)
  have sp: "dropWhile py_isspace (c # cs) = c # cs" using c by (auto simp: py_isspace_def)
  have sg: "strip_sign (c # cs) = (1, c # cs)" using c by (auto simp: strip_sign_def)
  have px: "strip_prefix_0b (c # cs) = c # cs"
  proof (cases cs)
    case Nil then show ?thesis by (simp add: strip_prefix_0b_def)
  next
    case (Cons d ds)
    then have "d = CHR ''0'' \<or> d = CHR ''1''" using assms(1) s by (auto simp: bits_def)
    then show ?thesis using Cons by (auto simp: strip_prefix_0b_def)
  qed
  have sc: "long_from_binary_base (CHR 0x00) 0 (c # cs) = Some (bin_val 0 (c # cs), [])"
    using scan_bits[OF assms(1)] s by simp
  have nu: "c \<noteq> CHR ''_''" using c by auto
  show ?thesis
    unfolding s int_base2_def sp sg by (simp only: px sc nu Let_def prod.case list.case option.case if_False) simp
qed


declare bin_digits.simps [simp del]

lemma char_of_48: "char_of (48::nat) = CHR ''0''" by code_simp
lemma char_of_49: "char_of (49::nat) = CHR ''1''" by code_simp
lemma of_char_0: "of_char (CHR ''0'') = (48::nat)" by simp
lemma of_char_1: "of_char (CHR ''1'') = (49::nat)" by simp

lemma bin_digits_range: "c \<in> set (bin_digits n) \<Longrightarrow> c = 48 \<or> c = 49"
proof (induction n arbitrary: c rule: bin_digits.induct)
  case (1 n)
  show ?case
  proof (cases "n < 2")
    case True
    with "1.prems" show ?thesis by (subst (asm) bin_digits.simps) auto
  next
    case False
    with "1.prems" have "c \<in> set (bin_digits (n div 2)) \<or> c = 48 + n mod 2"
      by (subst (asm) bin_digits.simps) auto
    moreover have "n mod 2 = 0 \<or> n mod 2 = 1" by auto
    ultimately show ?thesis using "1.IH"[OF False] by auto
  qed
qed

lemma bin_digits_nonempty: "bin_digits n \<noteq> []"
  by (subst bin_digits.simps) simp

lemma bin_digits_length: "0 < k \<Longrightarrow> (length (bin_digits n) \<le> k) = (n < 2 ^ k)"
proof (induction n arbitrary: k rule: bin_digits.induct)
  case (1 n)
  show ?case
  proof (cases "n < 2")
    case True
    have "(2::nat) \<le> 2 ^ k" using "1.prems" by (cases k) auto
    with True "1.prems" show ?thesis by (subst bin_digits.simps) (simp add: Suc_le_eq)
  next
    case False
    show ?thesis
    proof (cases k)
      case 0 with "1.prems" show ?thesis by simp
    next
      case (Suc j)
      show ?thesis
      proof (cases "j = 0")
        case True
        with Suc False bin_digits_nonempty[of "n div 2"] show ?thesis
          by (subst bin_digits.simps) (auto simp: Suc_le_eq)
      next
        case jpos: False
        have "(length (bin_digits (n div 2)) \<le> j) = (n div 2 < 2 ^ j)"
          using "1.IH"[OF False, of j] jpos by simp
        moreover have "(n div 2 < 2 ^ j) = (n < 2 ^ Suc j)" by auto
        ultimately show ?thesis using False Suc by (subst bin_digits.simps) simp
      qed
    qed
  qed
qed

lemma utf8_encode_ascii: "\<forall>c \<in> set s. c < 128 \<Longrightarrow> utf8_encode s = Inr (to_bytes s)"
  by (induction s) (auto simp: to_bytes_def)

lemma bin_val_append: "bin_val z (xs @ ys) = bin_val (bin_val z xs) ys"
  by (simp add: bin_val_def)

lemma bin_val_zeros: "bin_val 0 (replicate p (CHR ''0'')) = 0"
  by (induction p) (auto simp: bin_val_def)

lemma bin_val_digits: "bin_val 0 (to_bytes (bin_digits n)) = int n"
proof (induction n rule: bin_digits.induct)
  case (1 n)
  show ?case
  proof (cases "n < 2")
    case True
    then have "n = 0 \<or> n = 1" by auto
    then show ?thesis
      by (subst bin_digits.simps) (auto simp: bin_val_def to_bytes_def char_of_48 char_of_49)
  next
    case False
    have step: "bin_val 0 (to_bytes (bin_digits n))
        = 2 * bin_val 0 (to_bytes (bin_digits (n div 2))) + (if char_of (48 + n mod 2) = CHR ''1'' then 1 else 0)"
      using False by (subst bin_digits.simps) (simp add: to_bytes_def bin_val_def)
    have "(if char_of (48 + n mod 2) = CHR ''1'' then 1 else 0) = int (n mod 2)"
    proof (cases "even n")
      case True then show ?thesis by (simp add: char_of_48)
    next
      case False then show ?thesis by (simp add: mod_2_eq_odd char_of_49)
    qed
    moreover have "2 * int (n div 2) + int (n mod 2) = int n"
      by (metis add.commute mod_mult_div_eq mult.commute of_nat_add of_nat_mult of_nat_numeral)
    ultimately show ?thesis using step "1.IH"[OF False] by simp
  qed
qed

lemma bits_digits: "bits (to_bytes (bin_digits n))"
proof -
  have "char_of c = CHR ''0'' \<or> char_of c = CHR ''1''" if "c \<in> set (bin_digits n)" for c
    using bin_digits_range[OF that] by (auto simp: char_of_48 char_of_49)
  then show ?thesis by (auto simp: bits_def to_bytes_def)
qed


lemma drop_bin_nonneg: "0 \<le> x \<Longrightarrow> drop 2 (bin x) = bin_digits (nat x)"
  by (simp add: bin_def ascii_def)

lemma concat_zeros: "concat (replicate p (ascii ''0'')) = replicate p 48"
  by (induction p) (simp_all add: ascii_def)

lemma zero_pad_in_range:
  assumes "0 \<le> x" "x < 2 ^ w" "0 < w"
  shows "zero_pad x (int w) = Inr (field w x)"
proof -
  have "nat x < 2 ^ w" using assms(1,2) by (simp add: nat_less_iff)
  then have len: "length (bin_digits (nat x)) \<le> w"
    using bin_digits_length[OF assms(3), of "nat x"] by simp
  have "c < 128" if "c \<in> set (bin_digits (nat x))" for c
    using bin_digits_range[OF that] by auto
  then have asc: "\<forall>c \<in> set (replicate (w - length (bin_digits (nat x))) 48 @ bin_digits (nat x)). c < 128"
    by auto
  have pad: "nat (int w - int (length (bin_digits (nat x)))) = w - length (bin_digits (nat x))"
    by simp
  show ?thesis
    unfolding zero_pad_def drop_bin_nonneg[OF assms(1)] Let_def concat_zeros pad
    using len utf8_encode_ascii[OF asc]
    by (simp add: field_def to_bytes_def char_of_48)
qed

lemma zero_pad_too_big:
  assumes "0 \<le> x" "2 ^ w \<le> x" "0 < w"
  shows "zero_pad x (int w) = Inl (AssertionError ERR_NUM_OUT_OF_RANGE)"
proof -
  have "\<not> nat x < 2 ^ w" using assms(1,2) by (simp add: nat_less_iff)
  then have "\<not> length (bin_digits (nat x)) \<le> w"
    using bin_digits_length[OF assms(3), of "nat x"] by simp
  then show ?thesis
    unfolding zero_pad_def drop_bin_nonneg[OF assms(1)] Let_def by simp
qed

lemma field_length:
  assumes "0 \<le> x" "x < 2 ^ w" "0 < w"
  shows "length (field w x) = w"
proof -
  have "nat x < 2 ^ w" using assms(1,2) by (simp add: nat_less_iff)
  then have "length (bin_digits (nat x)) \<le> w"
    using bin_digits_length[OF assms(3), of "nat x"] by simp
  then show ?thesis by (simp add: field_def to_bytes_def)
qed

lemma field_bits: "bits (field w x)"
  using bits_digits[of "nat x"] by (auto simp: field_def bits_def)

lemma field_value: "0 \<le> x \<Longrightarrow> bin_val 0 (field w x) = x"
  by (simp add: field_def bin_val_append bin_val_zeros bin_val_digits)

lemma field_nonempty: "field w x \<noteq> []"
  by (simp add: field_def to_bytes_def bin_digits_nonempty)

lemma int_base2_field: "0 \<le> x \<Longrightarrow> int_base2 (field w x) = Inr x"
  using int_base2_bits[OF field_bits field_nonempty, of w x] by (simp add: field_value)

lemma utf8_decode_ascii:
  "\<forall>b \<in> set bs. (of_char b :: nat) < 128 \<Longrightarrow> utf8_decode bs = Inr (map of_char bs)"
  by (induction bs rule: utf8_decode.induct) (simp_all add: push_cp_def Let_def)

lemma flag_set_ascii: "c \<in> set (flag_set F) \<Longrightarrow> c = 48 \<or> c = 49"
  by (auto simp: flag_set_def RAT_FLAG_ORDER_def ascii_def split: if_splits)

lemma flag_set_length: "length (flag_set F) = 8"
  by (simp add: flag_set_def RAT_FLAG_ORDER_def ascii_def)


lemma slices:
  assumes "length a = 16" "length b = 16" "length c = 16" "length d = 8" "length e = 8"
  shows "slice 0 16 (a @ b @ c @ d @ e) = a"
    and "slice 16 32 (a @ b @ c @ d @ e) = b"
    and "slice 32 48 (a @ b @ c @ d @ e) = c"
    and "slice 48 56 (a @ b @ c @ d @ e) = d"
    and "slice 56 64 (a @ b @ c @ d @ e) = e"
  using assms by (simp_all add: slice_def)

lemma utf8_flag_set: "utf8_encode (flag_set F) = Inr (to_bytes (flag_set F))"
proof -
  have "c < 128" if "c \<in> set (flag_set F)" for c using flag_set_ascii[OF that] by auto
  then show ?thesis by (intro utf8_encode_ascii) auto
qed

lemma utf8_decode_flag_set: "utf8_decode (to_bytes (flag_set F)) = Inr (flag_set F)"
proof -
  have a: "of_char (char_of c) = c" if "c \<in> set (flag_set F)" for c
    using flag_set_ascii[OF that] by (auto simp: char_of_48 char_of_49)
  have "(of_char (char_of c) :: nat) < 128" if "c \<in> set (flag_set F)" for c
    using flag_set_ascii[OF that] by (auto simp: char_of_48 char_of_49)
  then have "\<forall>b \<in> set (to_bytes (flag_set F)). (of_char b :: nat) < 128"
    by (auto simp: to_bytes_def)
  then have "utf8_decode (to_bytes (flag_set F)) = Inr (map of_char (to_bytes (flag_set F)))"
    by (rule utf8_decode_ascii)
  moreover have "map of_char (to_bytes (flag_set F)) = flag_set F"
    using a by (simp add: to_bytes_def map_idI)
  ultimately show ?thesis by simp
qed

lemma header_bytes_in_range:
  assumes "0 \<le> sid" "sid \<le> 65535" "0 \<le> seq" "seq \<le> 65535"
    and "0 \<le> len" "len \<le> 65535" "0 \<le> off" "off \<le> 255"
  shows "header_bytes sid seq len (flag_set F) off
    = Inr (field 16 sid @ field 16 seq @ field 16 len @ to_bytes (flag_set F) @ field 8 off)"
proof -
  have z: "zero_pad sid 16 = Inr (field 16 sid)" "zero_pad seq 16 = Inr (field 16 seq)"
    "zero_pad len 16 = Inr (field 16 len)" "zero_pad off 8 = Inr (field 8 off)"
    using assms zero_pad_in_range[of sid 16] zero_pad_in_range[of seq 16]
      zero_pad_in_range[of len 16] zero_pad_in_range[of off 8] by simp_all
  show ?thesis by (simp add: header_bytes_def z utf8_flag_set)
qed

lemma decode_fields:
  assumes "0 \<le> sid" "sid \<le> 65535" "0 \<le> seq" "seq \<le> 65535"
    and "0 \<le> len" "len \<le> 65535" "0 \<le> off" "off \<le> 255"
  shows "decode_rat_header
      (field 16 sid @ field 16 seq @ field 16 len @ to_bytes (flag_set F) @ field 8 off)
    = Inr \<lparr>hdr_stream_id = sid, hdr_seq_num = seq, hdr_length = len,
           hdr_flags = flag_set F, hdr_offset = off\<rparr>"
proof -
  have l: "length (field 16 sid) = 16" "length (field 16 seq) = 16" "length (field 16 len) = 16"
    "length (to_bytes (flag_set F)) = 8" "length (field 8 off) = 8"
    using assms field_length[of sid 16] field_length[of seq 16] field_length[of len 16]
      field_length[of off 8] by (simp_all add: to_bytes_def flag_set_length)
  have n: "length (field 16 sid @ field 16 seq @ field 16 len @ to_bytes (flag_set F) @ field 8 off)
      = RAT_HEADER_SIZE"
    by (simp add: l RAT_HEADER_SIZE_def)
  show ?thesis
    unfolding decode_rat_header_def slices[OF l] n
    using assms by (simp add: int_base2_field utf8_decode_flag_set)
qed

section \<open>Evaluation at concrete values\<close>

lemma char_of_98: "char_of (98::nat) = CHR ''b''" by code_simp

lemma replicate_7: "replicate 7 x = [x, x, x, x, x, x, x]"
  by (simp add: eval_nat_numeral)

lemma replicate_15: "replicate 15 x = [x, x, x, x, x, x, x, x, x, x, x, x, x, x, x]"
  by (simp add: eval_nat_numeral)

lemma replicate_14: "replicate 14 x = [x, x, x, x, x, x, x, x, x, x, x, x, x, x]"
  by (simp add: eval_nat_numeral)

lemma field_16_0: "field 16 0 = ''0000000000000000''"
  by (simp add: field_def to_bytes_def bin_digits.simps[of 0] char_of_48 replicate_15)

lemma field_8_0: "field 8 0 = ''00000000''"
  by (simp add: field_def to_bytes_def bin_digits.simps[of 0] char_of_48 replicate_7)

lemma flag_set_HLO: "to_bytes (flag_set [HLO]) = ''00000100''"
  by (simp add: flag_set_unfold RAT_FLAG_ORDER_def to_bytes_def char_of_48 char_of_49)

lemma bin_digits_1: "bin_digits (Suc 0) = [49]"
  by (subst bin_digits.simps) simp

lemma zero_pad_minus_1: "zero_pad (- 1) 16 = Inr ''00000000000000b1''"
  by (simp add: zero_pad_def Let_def bin_def ascii_def bin_digits_1 concat_zeros replicate_14
      char_of_48 char_of_49 char_of_98)

lemma fresh_fields: "stream_id fresh_socket = 0" "seq_num fresh_socket = 0"
  by (simp_all add: fresh_socket_def RatSocket_init_def)

lemma construct_hlo: "construct_header fresh_socket 0 (flag_set [HLO]) 0 = Inr hlo_segment"
proof -
  have "header_bytes 0 0 0 (flag_set [HLO]) 0
      = Inr (field 16 0 @ field 16 0 @ field 16 0 @ to_bytes (flag_set [HLO]) @ field 8 0)"
    by (rule header_bytes_in_range) simp_all
  then show ?thesis
    by (simp add: construct_header_def fresh_fields field_16_0 field_8_0 flag_set_HLO hlo_segment_def)
qed

lemma replicate_16: "replicate 16 x = [x, x, x, x, x, x, x, x, x, x, x, x, x, x, x, x]"
  by (simp add: eval_nat_numeral)

lemma int_base2_x: "int_base2 (replicate 16 (CHR ''x'')) = Inl ValueError"
  by (simp add: replicate_16 int_base2_def py_isspace_def strip_sign_def strip_prefix_0b_def)

lemma decode_x: "decode_rat_header (replicate 64 (CHR ''x'')) = Inl ValueError"
  by (simp add: decode_rat_header_def RAT_HEADER_SIZE_def slice_def int_base2_x)

lemma flag_set_ACK: "to_bytes (flag_set [ACK]) = ''10000000''"
  by (simp add: flag_set_unfold RAT_FLAG_ORDER_def to_bytes_def char_of_48 char_of_49)

lemma zero_pad_0: "zero_pad 0 16 = Inr ''0000000000000000''" "zero_pad 0 8 = Inr ''00000000''"
  using zero_pad_in_range[of 0 16] zero_pad_in_range[of 0 8]
  by (simp_all add: field_16_0 field_8_0)

lemma construct_negative:
  "construct_header fresh_socket (- 1) (flag_set [ACK]) 0
     = Inr ''0000000000000000000000000000000000000000000000b11000000000000000''"
  by (simp add: construct_header_def header_bytes_def fresh_fields zero_pad_0 zero_pad_minus_1
      utf8_flag_set flag_set_ACK)

section \<open>The claims about the codec\<close>

lemma int_base2_error: "int_base2 b = Inl e \<Longrightarrow> e = ValueError"
  by (auto simp: int_base2_def Let_def split: prod.splits list.splits option.splits if_splits)

lemma push_cp_error: "push_cp c r = Inl e \<Longrightarrow> r = Inl e"
  by (auto simp: push_cp_def split: sum.splits)

lemma utf8_decode_error: "utf8_decode b = Inl e \<Longrightarrow> e = UnicodeDecodeError"
  by (induction b rule: utf8_decode.induct)
    (auto simp: Let_def split: if_splits dest!: push_cp_error)

lemma bin_ascii: "c \<in> set (bin x) \<Longrightarrow> c < 128"
  using bin_digits_range[of c "nat x"] bin_digits_range[of c "nat (- x)"]
  by (auto simp: bin_def ascii_def split: if_splits)

lemma zero_pad_length:
  assumes "zero_pad x (int w) = Inr b"
  shows "length b = w"
proof -
  let ?d = "drop 2 (bin x)"
  let ?p = "int w - int (length ?d)"
  have p: "\<not> ?p < 0" using assms by (auto simp: zero_pad_def Let_def split: if_splits)
  have "c < 128" if "c \<in> set ?d" for c using bin_ascii[of c x] that by (auto dest: in_set_dropD)
  then have "\<forall>c \<in> set (concat (replicate (nat ?p) (ascii ''0'')) @ ?d). c < 128"
    by (auto simp: concat_zeros)
  then have "utf8_encode (concat (replicate (nat ?p) (ascii ''0'')) @ ?d)
      = Inr (to_bytes (concat (replicate (nat ?p) (ascii ''0'')) @ ?d))"
    by (rule utf8_encode_ascii)
  then have "b = to_bytes (concat (replicate (nat ?p) (ascii ''0'')) @ ?d)"
    using assms p by (simp add: zero_pad_def Let_def)
  then show ?thesis using p by (simp add: to_bytes_def concat_zeros)
qed

lemma header_bytes_length:
  assumes "header_bytes sid seq len (flag_set F) off = Inr h"
  shows "length h = 64"
proof -
  from assms obtain b1 b2 b3 b5 where
    z: "zero_pad sid (int 16) = Inr b1" "zero_pad seq (int 16) = Inr b2"
       "zero_pad len (int 16) = Inr b3" "zero_pad off (int 8) = Inr b5"
    and h: "h = b1 @ b2 @ b3 @ to_bytes (flag_set F) @ b5"
    by (auto simp: header_bytes_def utf8_flag_set split: sum.splits)
  show ?thesis
    using z[THEN zero_pad_length] by (simp add: h to_bytes_def flag_set_length)
qed

text \<open>
  C5. For every collection \<open>F\<close> of flags, \<open>flag_decode (flag_set F)\<close> returns the flags of
  \<open>F\<close>, listed in the fixed order ACK, NACK, SWIN, RST, ALI, HLO, BYE, EXP, so the set decoded is
  the set encoded. \<open>flag_set\<close> always returns a field of eight characters, and \<open>flag_decode\<close>
  returns a list, without raising, on every field of eight characters.
\<close>

theorem flag_decode_flag_set_roundtrip:
  "flag_decode (flag_set F) = Inr (filter (\<lambda>f. f \<in> set F) RAT_FLAG_ORDER)
   \<and> set (filter (\<lambda>f. f \<in> set F) RAT_FLAG_ORDER) = set F
   \<and> length (flag_set F) = 8
   \<and> (length s = 8 \<longrightarrow> (\<exists>fs. flag_decode s = Inr fs))"
  using flag_decode_flag_set set_filter_flags flag_set_length flag_decode_total by blast

theorem flag_decode_flag_set_roundtrip_witness:
  "flag_decode (flag_set [HLO, ACK]) = Inr [ACK, HLO]
   \<and> set [ACK, HLO] = set [HLO, ACK]
   \<and> length (flag_set [HLO, ACK]) = 8
   \<and> length (ascii ''00000110'') = 8
   \<and> (\<exists>fs. flag_decode (ascii ''00000110'') = Inr fs)"
proof -
  have f: "filter (\<lambda>f. f \<in> set [HLO, ACK]) RAT_FLAG_ORDER = [ACK, HLO]"
    by (simp add: RAT_FLAG_ORDER_def)
  have l: "length (ascii ''00000110'') = 8"
    by (simp add: ascii_def)
  from flag_decode_flag_set_roundtrip [of "[HLO, ACK]" "ascii ''00000110''"]
  show ?thesis unfolding f using l by blast
qed

text \<open>
  C2. When the socket's \<open>stream_id\<close> and \<open>seq_num\<close> and the \<open>length\<close> argument lie in
  [0, 65535], the \<open>offset\<close> argument lies in [0, 255] and the flag field comes from
  \<open>flag_set\<close>, \<open>construct_header\<close> succeeds and \<open>decode_rat_header\<close> applied to its result
  returns exactly the five values that were encoded. Both are functions of their arguments
  only: neither returns a changed socket.
\<close>

theorem decode_construct_header_roundtrip:
  assumes "0 \<le> stream_id self" "stream_id self \<le> 65535"
    and "0 \<le> seq_num self" "seq_num self \<le> 65535"
    and "0 \<le> len" "len \<le> 65535" "0 \<le> off" "off \<le> 255"
  shows "\<exists>h. construct_header self len (flag_set F) off = Inr h
    \<and> decode_rat_header h
        = Inr \<lparr>hdr_stream_id = stream_id self, hdr_seq_num = seq_num self, hdr_length = len,
               hdr_flags = flag_set F, hdr_offset = off\<rparr>"
  unfolding construct_header_def
  using header_bytes_in_range[OF assms, of F] decode_fields[OF assms, of F] by simp

theorem decode_construct_header_roundtrip_witness:
  "0 \<le> stream_id established_client \<and> stream_id established_client \<le> 65535
   \<and> 0 \<le> seq_num established_client \<and> seq_num established_client \<le> 65535
   \<and> (\<exists>h. construct_header established_client 512 (flag_set [ACK]) 0 = Inr h
        \<and> decode_rat_header h
            = Inr \<lparr>hdr_stream_id = 42, hdr_seq_num = 1, hdr_length = 512,
                   hdr_flags = flag_set [ACK], hdr_offset = 0\<rparr>)"
  using decode_construct_header_roundtrip [of established_client 512 0 "[ACK]"]
  by (simp add: established_client_def)

lemma encoded_header_length:
  "(construct_header self len (flag_set F) off = Inr h \<longrightarrow> length h = 64)
   \<and> ((decode_rat_header b = Inl (IOError ERR_HEADER_INVALID)) = (length b \<noteq> 64))"
proof -
  have "decode_rat_header b \<noteq> Inl (IOError ERR_HEADER_INVALID)" if "length b = 64"
  proof
    assume a: "decode_rat_header b = Inl (IOError ERR_HEADER_INVALID)"
    then have "(\<exists>s. int_base2 s = Inl (IOError ERR_HEADER_INVALID))
        \<or> (\<exists>s. utf8_decode s = Inl (IOError ERR_HEADER_INVALID))"
      using that by (auto simp: decode_rat_header_def RAT_HEADER_SIZE_def split: sum.splits)
    then show False by (auto dest: int_base2_error utf8_decode_error)
  qed
  moreover have "decode_rat_header b = Inl (IOError ERR_HEADER_INVALID)" if "length b \<noteq> 64"
    using that by (simp add: decode_rat_header_def RAT_HEADER_SIZE_def)
  ultimately show ?thesis
    using header_bytes_length[of "stream_id self" "seq_num self" len F off h]
    by (auto simp: construct_header_def)
qed

text \<open>
  C3 at the header of a fresh socket. \<open>construct_header\<close>, whose docstring promises an
  8-byte header, returns 64 bytes: it writes one ASCII character for each of the 64 header
  bits. \<open>decode_rat_header\<close> compares the number of bytes it is given with
  \<open>RAT_HEADER_SIZE\<close>, a size in bits, so it rejects an input of exactly 8 bytes with the
  header-size error.
\<close>

theorem encoded_header_is_not_8_bytes:
  "construct_header fresh_socket 0 (flag_set [HLO]) 0 = Inr hlo_segment
   \<and> length hlo_segment = 64
   \<and> length ''00000000'' = 8
   \<and> decode_rat_header ''00000000'' = Inl (IOError ERR_HEADER_INVALID)"
  using construct_hlo
  by (simp add: hlo_segment_def decode_rat_header_def RAT_HEADER_SIZE_def)

text \<open>
  C4 at a negative value. \<open>bin(-1)\<close> is \<open>-0b1\<close>; dropping two characters leaves \<open>b1\<close>, which
  is short enough, so \<open>zero_pad\<close> pads it and \<open>construct_header\<close> returns 64 bytes with the
  letter \<open>b\<close> in the length field instead of raising the out-of-range error.
\<close>

theorem negative_length_is_encoded:
  "zero_pad (- 1) 16 = Inr ''00000000000000b1''
   \<and> construct_header fresh_socket (- 1) (flag_set [ACK]) 0
       = Inr ''0000000000000000000000000000000000000000000000b11000000000000000''"
  using zero_pad_minus_1 construct_negative by simp

section \<open>Properties of the socket operations\<close>

declare send_fill.simps [simp del] accept_loop.simps [simp del]
  connect_loop.simps [simp del] ack_loop.simps [simp del]

lemma recv_raises: "recv self n w = Some (Inl (NameError ''state_check''), self, w)"
  by (simp add: recv_def unbound_def)

lemma send_fill_empty: "send_fill self [] q = (Inr q, self)"
  by (subst send_fill.simps) simp

lemma send_fill_nonempty:
  "bs \<noteq> [] \<Longrightarrow> send_fill self bs q = (Inl (NameError ''construct_header''), self)"
  by (subst send_fill.simps) (simp add: unbound_def Let_def)

lemma send_empty: "send self [] w = Some (Inr (), self, w)"
  by (simp add: send_def send_fill_empty send_window_def)

lemma send_nonempty:
  "bs \<noteq> [] \<Longrightarrow> send self bs w = Some (Inl (NameError ''construct_header''), self, w)"
  by (simp add: send_def send_fill_nonempty)

lemma accept_loop_result:
  "accept_loop self client r a w =
     (if r \<noteq> 0 then Some (Inl (NameError ''flag_header''), w) else Some (Inr (r, a), w))"
  by (subst accept_loop.simps) (simp add: accept_cond_def unbound_def)

lemma connect_loop_unbound:
  "connect_loop self None seg w = Some (Inl (UnboundLocalError ''retry_times''), self, w)"
  by (subst connect_loop.simps) (simp add: connect_cond_def)

lemma connect_raises:
  "connect self address port k w =
     Some (Inl (UnboundLocalError ''retry_times''),
           self\<lparr>udp := (udp self)\<lparr>udp_timeout := Some RAT_REPLY_TIMEOUT\<rparr>,
                remote_addr := (address, port)\<rparr>, w)"
  by (simp add: connect_def connect_loop_unbound Let_def)

lemma close_returns: "close self w = (Inr (), self, w)"
  by (simp add: close_def)

lemma decode_hlo_segment:
  "decode_rat_header hlo_segment
     = Inr \<lparr>hdr_stream_id = 0, hdr_seq_num = 0, hdr_length = 0,
            hdr_flags = flag_set [HLO], hdr_offset = 0\<rparr>"
proof -
  have "hlo_segment = field 16 0 @ field 16 0 @ field 16 0 @ to_bytes (flag_set [HLO]) @ field 8 0"
    by (simp add: field_16_0 field_8_0 flag_set_HLO hlo_segment_def)
  then show ?thesis using decode_fields[of 0 0 0 0 "[HLO]"] by simp
qed

lemma flag_decode_HLO: "flag_decode (flag_set [HLO]) = Inr [HLO]"
  by (simp add: flag_decode_flag_set RAT_FLAG_ORDER_def)

lemma take_hlo_segment: "take 64 hlo_segment = hlo_segment"
  by (simp add: hlo_segment_def)

lemma accept_hlo:
  "accept listener hlo_then_silence
     = Some (Inl (NameError ''flag_header''),
             listener\<lparr>udp := \<lparr>udp_timeout = Some RAT_REPLY_TIMEOUT,
                              udp_bound = Some (''127.0.0.1'', 5001)\<rparr>,
                      active_streams := [1]\<rparr>,
             \<lparr>inbox = [], send_faults = [], bind_fault = None, randoms = [], sent = [],
              next_oid = 2\<rparr>)"
  by (simp add: accept_def state_check_def listener_def fresh_socket_def recvfrom_def
      RAT_HEADER_SIZE_def take_hlo_segment decode_hlo_segment flag_decode_HLO
      RatSocket_init_def randrange_def accept_loop_result
      RAT_RETRY_TIMES_def Let_def hlo_then_silence_def quiet_world_def)



lemma construct_header_in_range:
  assumes "0 \<le> stream_id self" "stream_id self \<le> 65535"
    and "0 \<le> seq_num self" "seq_num self \<le> 65535"
  shows "\<exists>h. construct_header self 0 (flag_set F) 0 = Inr h"
  using header_bytes_in_range[OF assms, of 0 0 F] by (simp add: construct_header_def)

lemma ack_in_range:
  assumes "0 \<le> stream_id self" "stream_id self \<le> 65535"
    and "0 \<le> seq_num self" "seq_num self \<le> 65535"
  shows "\<exists>w'. ack self w = (Inr (), self\<lparr>seq_num := seq_num self + 1\<rparr>, w')"
proof -
  obtain h where h: "construct_header self 0 (flag_set [ACK]) 0 = Inr h"
    using construct_header_in_range[OF assms] by blast
  obtain r s w' where "ack_loop h (remote_addr self) RAT_RETRY_TIMES False w = (r, s, w')"
    by (cases "ack_loop h (remote_addr self) RAT_RETRY_TIMES False w") auto
  then show ?thesis by (simp add: ack_def h)
qed

lemma zero_pad_65536: "zero_pad 65536 16 = Inl (AssertionError ERR_NUM_OUT_OF_RANGE)"
  using zero_pad_too_big[of 65536 16] by simp

lemma ack_overflow:
  "stream_id self = 42 \<Longrightarrow> seq_num self = 65536 \<Longrightarrow>
     ack self w = (Inl (AssertionError ERR_NUM_OUT_OF_RANGE), self, w)"
proof -
  assume a: "stream_id self = 42" "seq_num self = 65536"
  obtain b where b: "zero_pad 42 16 = Inr b"
    using zero_pad_in_range[of 42 16] by simp
  show ?thesis
    by (simp add: ack_def construct_header_def header_bytes_def a b zero_pad_65536)
qed

lemma ack_loop_five_faults:
  "ack_loop h a 5 False five_send_faults
     = (0, False, \<lparr>inbox = [], send_faults = [], bind_fault = None, randoms = [], sent = [],
                    next_oid = 1\<rparr>)"
  by (simp add: ack_loop.simps sendto_def five_send_faults_def)

lemma established_client_fields:
  "stream_id established_client = 42" "seq_num established_client = 1"
  "current_state established_client = SOCK_ESTABLISHED"
  by (simp_all add: established_client_def)

lemma ack_five_faults:
  "ack established_client five_send_faults
     = (Inr (), established_client\<lparr>seq_num := 2\<rparr>,
        \<lparr>inbox = [], send_faults = [], bind_fault = None, randoms = [], sent = [],
         next_oid = 1\<rparr>)"
proof -
  obtain h where h: "construct_header established_client 0 (flag_set [ACK]) 0 = Inr h"
    using construct_header_in_range[of established_client "[ACK]"]
    by (auto simp: established_client_fields)
  show ?thesis
    by (simp add: ack_def h RAT_RETRY_TIMES_def ack_loop_five_faults established_client_fields)
qed

lemma listen_twice:
  "current_state self = SOCK_SERVOPEN \<Longrightarrow>
     listen self address port n w = (Inl TypeError, self, w)"
  by (simp add: listen_def state_check_def)

lemma state_check_list:
  "state_check self (Many ss)
     = (if current_state self \<in> set ss then Inr () else Inl (IOError ERR_STATE))"
  by (simp add: state_check_def)

section \<open>The claims about the socket operations\<close>


lemma example_states:
  "current_state fresh_socket = SOCK_UNOPENED" "current_state listener = SOCK_SERVOPEN"
  by (simp_all add: fresh_socket_def listener_def RatSocket_init_def)

text \<open>
  C1 at a payload of one byte and at the empty payload, on the two ends of an established
  connection. \<open>send\<close> of one byte raises \<open>NameError\<close> for the bare name \<open>construct_header\<close>
  and hands nothing to the network; \<open>send\<close> of the empty string returns without sending;
  \<open>recv\<close> raises \<open>NameError\<close> for the bare name \<open>state_check\<close> whatever is asked of it. In
  neither case does \<open>recv\<close> return the bytes that were sent.
\<close>

theorem send_then_recv_one_byte:
  "send established_client ''A'' quiet_world
     = Some (Inl (NameError ''construct_header''), established_client, quiet_world)
   \<and> recv established_server 1 quiet_world
     = Some (Inl (NameError ''state_check''), established_server, quiet_world)
   \<and> send established_client [] quiet_world = Some (Inr (), established_client, quiet_world)
   \<and> recv established_server 0 quiet_world
     = Some (Inl (NameError ''state_check''), established_server, quiet_world)"
  by (simp add: send_nonempty send_empty recv_raises)

text \<open>
  C6 on sockets in the wrong state. On a socket that was never opened, \<open>send\<close> of the empty
  string and \<open>close\<close> return normally, \<open>accept\<close> raises \<open>TypeError\<close> and \<open>recv\<close> raises
  \<open>NameError\<close>; \<open>listen\<close> on a socket that already listens raises \<open>TypeError\<close>; \<open>connect\<close>
  on an established socket raises \<open>UnboundLocalError\<close> after overwriting the remote address.
  None of them raises the state error \<open>IOError ERR_STATE\<close>.
\<close>

theorem operations_without_state_violation:
  "send fresh_socket [] quiet_world = Some (Inr (), fresh_socket, quiet_world)
   \<and> close fresh_socket quiet_world = (Inr (), fresh_socket, quiet_world)
   \<and> accept fresh_socket quiet_world = Some (Inl TypeError, fresh_socket, quiet_world)
   \<and> recv fresh_socket 1 quiet_world
     = Some (Inl (NameError ''state_check''), fresh_socket, quiet_world)
   \<and> listen listener ''127.0.0.1'' 5001 5 quiet_world = (Inl TypeError, listener, quiet_world)
   \<and> connect established_client ''10.0.0.1'' 80 False quiet_world
     = Some (Inl (UnboundLocalError ''retry_times''),
             established_client\<lparr>udp := (udp established_client)\<lparr>udp_timeout := Some RAT_REPLY_TIMEOUT\<rparr>,
                                remote_addr := (''10.0.0.1'', 80)\<rparr>,
             quiet_world)"
  by (simp add: send_empty close_returns recv_raises listen_twice connect_raises
      accept_def state_check_def example_states)

text \<open>
  C7 when no reply ever arrives. A listener receives an HLO segment and nothing after it:
  \<open>accept\<close> raises \<open>NameError\<close> for the bare name \<open>flag_header\<close> when it first evaluates the
  condition of its retry loop, having sent nothing (the listener stays in \<open>SOCK_SERVOPEN\<close>,
  with the child socket recorded in \<open>active_streams\<close>). \<open>connect\<close> raises
  \<open>UnboundLocalError\<close> for \<open>retry_times\<close>, having sent nothing. Neither makes five attempts,
  and neither returns a failure value.
\<close>

theorem handshake_without_replies:
  "accept listener hlo_then_silence
     = Some (Inl (NameError ''flag_header''),
             listener\<lparr>udp := \<lparr>udp_timeout = Some RAT_REPLY_TIMEOUT,
                              udp_bound = Some (''127.0.0.1'', 5001)\<rparr>,
                      active_streams := [1]\<rparr>,
             \<lparr>inbox = [], send_faults = [], bind_fault = None, randoms = [], sent = [],
              next_oid = 2\<rparr>)
   \<and> connect fresh_socket ''127.0.0.1'' 5001 False quiet_world
     = Some (Inl (UnboundLocalError ''retry_times''),
             fresh_socket\<lparr>udp := (udp fresh_socket)\<lparr>udp_timeout := Some RAT_REPLY_TIMEOUT\<rparr>,
                          remote_addr := (''127.0.0.1'', 5001)\<rparr>,
             quiet_world)
   \<and> sent quiet_world = []"
  by (simp add: accept_hlo connect_raises quiet_world_def)



text \<open>
  C9 on an established connection. \<open>close\<close> returns at once: the socket is still in
  \<open>SOCK_ESTABLISHED\<close> and nothing has been sent, so there is no BYE exchange and no
  transition to \<open>SOCK_BYESENT\<close> or \<open>SOCK_CLOSED\<close>. On a socket put in \<open>SOCK_CLOSED\<close>,
  \<open>close\<close> and \<open>send\<close> of the empty string return normally instead of failing. Only the
  constant is as claimed: \<open>RAT_BYE_TIMEOUT\<close> is a quarter of \<open>RAT_REPLY_TIMEOUT\<close>.
\<close>

theorem close_does_nothing:
  "close established_client quiet_world = (Inr (), established_client, quiet_world)
   \<and> current_state established_client = SOCK_ESTABLISHED
   \<and> sent quiet_world = []
   \<and> close (established_client\<lparr>current_state := SOCK_CLOSED\<rparr>) quiet_world
     = (Inr (), established_client\<lparr>current_state := SOCK_CLOSED\<rparr>, quiet_world)
   \<and> send (established_client\<lparr>current_state := SOCK_CLOSED\<rparr>) [] quiet_world
     = Some (Inr (), established_client\<lparr>current_state := SOCK_CLOSED\<rparr>, quiet_world)
   \<and> RAT_BYE_TIMEOUT = RAT_REPLY_TIMEOUT / 4"
  by (simp add: close_returns send_empty established_client_fields quiet_world_def
      RAT_BYE_TIMEOUT_def)

text \<open>
  C10, as the code has it. When the socket's \<open>stream_id\<close> and \<open>seq_num\<close> lie in [0, 65535],
  \<open>ack\<close> returns normally on every network, also when all its attempts to send fail, and the
  socket it leaves is the one it found with \<open>seq_num\<close> increased by one: \<open>current_state\<close>,
  \<open>stream_id\<close>, \<open>window_size\<close>, \<open>remote_addr\<close> and every other field are unchanged.
\<close>

theorem ack_advances_seq_num:
  assumes "0 \<le> stream_id self" "stream_id self \<le> 65535"
    and "0 \<le> seq_num self" "seq_num self \<le> 65535"
  shows "\<exists>w'. ack self w = (Inr (), self\<lparr>seq_num := seq_num self + 1\<rparr>, w')"
  using ack_in_range[OF assms] .

theorem ack_advances_seq_num_witness:
  "0 \<le> stream_id established_client \<and> stream_id established_client \<le> 65535
   \<and> 0 \<le> seq_num established_client \<and> seq_num established_client \<le> 65535
   \<and> length (send_faults five_send_faults) = 5
   \<and> ack established_client five_send_faults
     = (Inr (), established_client\<lparr>seq_num := 2\<rparr>,
        \<lparr>inbox = [], send_faults = [], bind_fault = None, randoms = [], sent = [],
         next_oid = 1\<rparr>)"
proof -
  have l: "length (send_faults five_send_faults) = 5"
    by (simp add: five_send_faults_def)
  from ack_advances_seq_num [of established_client five_send_faults] l
  show ?thesis by (simp add: established_client_fields ack_five_faults)
qed

text \<open>
  C10 as stated fails: once \<open>seq_num\<close> has reached 65536 the header cannot be built, and
  \<open>ack\<close> raises the out-of-range error before its loop, leaving \<open>seq_num\<close> as it was.
\<close>

theorem ack_raises_counterexample:
  "ack (established_client\<lparr>seq_num := 65536\<rparr>) quiet_world
     = (Inl (AssertionError ERR_NUM_OUT_OF_RANGE), established_client\<lparr>seq_num := 65536\<rparr>,
        quiet_world)"
  by (rule ack_overflow) (simp_all add: established_client_def)

end
